theory Spec2Isabelle
  imports Main "HOL-Library.Word" "HOL-Library.Multiset" "HOL-Library.Product_Lexorder"
begin

section \<open>Data model of the wallet transaction (class CWalletTx)\<close>

text \<open>
  Machine types of the header: \<open>uint256\<close> is a 256-bit word whose default value
  \<open>uint256()\<close> is the null (all-zero) hash, \<open>int\<close> and \<open>unsigned int\<close> are
  32-bit words, \<open>int64_t\<close> is a 64-bit word. \<open>CAmount\<close> is \<open>int64_t\<close>, an
  amount of money.
\<close>

type_synonym uint256 = "256 word"
type_synonym cint = "32 word"
type_synonym cuint = "32 word"
type_synonym int64_t = "64 word"
type_synonym CAmount = "64 word"
type_synonym isminefilter = nat
type_synonym mapValue_t = "string \<rightharpoonup> string"

definition IsNull :: "uint256 \<Rightarrow> bool" where
  "IsNull h = (h = 0)"

text \<open>
  Modelled from the spec: the type \<open>CachableAmount\<close>, which is declared outside
  the header: a derived amount memoized per filter class.
\<close>

type_synonym CachableAmount = "isminefilter \<rightharpoonup> CAmount"

text \<open>
  Modelled from the spec: \<open>CachableAmount::Reset\<close>, declared outside the header:
  it invalidates the cache, so that no amount is memoized for any filter class.
\<close>

definition Reset :: "CachableAmount \<Rightarrow> CachableAmount" where
  "Reset c = Map.empty"

text \<open>The enum \<open>CWalletTx::AmountType\<close>, the index of \<open>m_amounts\<close>.\<close>

datatype AmountType = DEBIT | CREDIT | IMMATURE_CREDIT | AVAILABLE_CREDIT

text \<open>The enum \<open>CWalletTx::Status\<close> and the struct \<open>CWalletTx::Confirmation\<close>.\<close>

datatype Status = UNCONFIRMED | CONFIRMED | CONFLICTED | ABANDONED

record Confirmation =
  status :: Status
  block_height :: cint
  hashBlock :: uint256
  nIndex :: cint

text \<open>
  The constructor \<open>Confirmation(s = UNCONFIRMED, b = 0, h = uint256(), i = 0)\<close>
  with all its default arguments.
\<close>

definition Confirmation_default :: Confirmation where
  "Confirmation_default =
     \<lparr>status = UNCONFIRMED, block_height = 0, hashBlock = 0, nIndex = 0\<rparr>"

text \<open>
  The fields of \<open>CWalletTx\<close>. \<open>'tx\<close> is the referenced raw transaction
  (\<open>CTransactionRef\<close>); \<open>pwallet\<close> is a pointer (\<open>None\<close> is \<open>nullptr\<close>);
  \<open>m_it_wtxOrdered\<close> is a position in the wallet's ordered list.
\<close>

record 'tx CWalletTx =
  pwallet :: "nat option"
  mapValue :: mapValue_t
  vOrderForm :: "(string \<times> string) list"
  fTimeReceivedIsTxTime :: cuint
  nTimeReceived :: cuint
  nTimeSmart :: cuint
  fFromMe :: bool
  nOrderPos :: int64_t
  m_it_wtxOrdered :: nat
  m_amounts :: "AmountType \<Rightarrow> CachableAmount"
  m_is_cache_empty :: bool
  fChangeCached :: bool
  fInMempool :: bool
  nChangeCached :: CAmount
  tx :: 'tx
  m_confirm :: Confirmation

definition Init :: "nat option \<Rightarrow> 'tx CWalletTx \<Rightarrow> 'tx CWalletTx" where
  "Init pwalletIn w =
     w\<lparr>pwallet := pwalletIn,
       mapValue := Map.empty,
       vOrderForm := [],
       fTimeReceivedIsTxTime := 0,
       nTimeReceived := 0,
       nTimeSmart := 0,
       fFromMe := False,
       fChangeCached := False,
       fInMempool := False,
       nChangeCached := 0,
       nOrderPos := - 1,
       m_confirm := Confirmation_default\<rparr>"

text \<open>
  The constructor \<open>CWalletTx(pwalletIn, arg)\<close>: the member initialisers
  (\<open>tx(arg)\<close>, \<open>m_is_cache_empty{true}\<close>, empty caches), then \<open>Init\<close>, which
  assigns every remaining field.
\<close>

definition CWalletTx_new :: "nat option \<Rightarrow> 'tx \<Rightarrow> 'tx CWalletTx" where
  "CWalletTx_new pwalletIn arg =
     Init pwalletIn
       \<lparr>pwallet = None, mapValue = Map.empty, vOrderForm = [],
        fTimeReceivedIsTxTime = 0, nTimeReceived = 0, nTimeSmart = 0,
        fFromMe = False, nOrderPos = 0, m_it_wtxOrdered = 0,
        m_amounts = (\<lambda>t. Map.empty), m_is_cache_empty = True,
        fChangeCached = False, fInMempool = False, nChangeCached = 0,
        tx = arg, m_confirm = Confirmation_default\<rparr>"

definition isAbandoned :: "'tx CWalletTx \<Rightarrow> bool" where
  "isAbandoned w = (status (m_confirm w) = ABANDONED)"

definition setAbandoned :: "'tx CWalletTx \<Rightarrow> 'tx CWalletTx" where
  "setAbandoned w =
     w\<lparr>m_confirm := (m_confirm w)
         \<lparr>status := ABANDONED, hashBlock := 0, block_height := 0, nIndex := 0\<rparr>\<rparr>"

definition isConflicted :: "'tx CWalletTx \<Rightarrow> bool" where
  "isConflicted w = (status (m_confirm w) = CONFLICTED)"

definition setConflicted :: "'tx CWalletTx \<Rightarrow> 'tx CWalletTx" where
  "setConflicted w = w\<lparr>m_confirm := (m_confirm w)\<lparr>status := CONFLICTED\<rparr>\<rparr>"

definition isUnconfirmed :: "'tx CWalletTx \<Rightarrow> bool" where
  "isUnconfirmed w = (status (m_confirm w) = UNCONFIRMED)"

definition setUnconfirmed :: "'tx CWalletTx \<Rightarrow> 'tx CWalletTx" where
  "setUnconfirmed w = w\<lparr>m_confirm := (m_confirm w)\<lparr>status := UNCONFIRMED\<rparr>\<rparr>"


definition setConfirmed :: "'tx CWalletTx \<Rightarrow> 'tx CWalletTx" where
  "setConfirmed w = w\<lparr>m_confirm := (m_confirm w)\<lparr>status := CONFIRMED\<rparr>\<rparr>"

text \<open>\<open>MarkDirty\<close>: make sure balances are recalculated.\<close>

definition MarkDirty :: "'tx CWalletTx \<Rightarrow> 'tx CWalletTx" where
  "MarkDirty w =
     w\<lparr>m_amounts :=
         ((((m_amounts w)(DEBIT := Reset (m_amounts w DEBIT)))
             (CREDIT := Reset (m_amounts w CREDIT)))
             (IMMATURE_CREDIT := Reset (m_amounts w IMMATURE_CREDIT)))
             (AVAILABLE_CREDIT := Reset (m_amounts w AVAILABLE_CREDIT)),
       fChangeCached := False,
       m_is_cache_empty := True\<rparr>"

definition BindWallet :: "nat \<Rightarrow> 'tx CWalletTx \<Rightarrow> 'tx CWalletTx" where
  "BindWallet pwalletIn w = MarkDirty (w\<lparr>pwallet := Some pwalletIn\<rparr>)"

section \<open>Serialization of a wallet transaction\<close>

text \<open>
  Constants and library functions that the header uses and declares elsewhere:
  the static constant \<open>CWalletTx::ABANDON_HASH\<close> and the string conversions
  \<open>ToString\<close>, \<open>atoi64\<close> and \<open>strprintf("%u", _)\<close>. They are parameters of
  the model.
\<close>

record externals =
  ABANDON_HASH :: uint256
  ToString :: "int64_t \<Rightarrow> string"
  atoi64 :: "string \<Rightarrow> int64_t"
  strprintf_u :: "cuint \<Rightarrow> string"

text \<open>
  The values that \<open>Serialize\<close> writes to the stream and \<open>Unserialize\<close> reads
  back, in their order; the byte encoding of each value belongs to the stream.
\<close>

record 'tx wtx_stream =
  s_tx :: 'tx
  s_hashBlock :: uint256
  s_dummy_vector1 :: "uint256 list"
  s_nIndex :: cint
  s_dummy_vector2 :: "'tx list"
  s_mapValue :: mapValue_t
  s_vOrderForm :: "(string \<times> string) list"
  s_fTimeReceivedIsTxTime :: cuint
  s_nTimeReceived :: cuint
  s_fFromMe :: bool
  s_dummy_bool :: bool

definition ReadOrderPos :: "externals \<Rightarrow> mapValue_t \<Rightarrow> int64_t" where
  "ReadOrderPos ext mv =
     (case mv ''n'' of None \<Rightarrow> - 1 | Some v \<Rightarrow> atoi64 ext v)"

definition WriteOrderPos :: "externals \<Rightarrow> int64_t \<Rightarrow> mapValue_t \<Rightarrow> mapValue_t" where
  "WriteOrderPos ext pos mv =
     (if pos = - 1 then mv else mv(''n'' \<mapsto> ToString ext pos))"

definition Serialize :: "externals \<Rightarrow> 'tx CWalletTx \<Rightarrow> 'tx wtx_stream" where
  "Serialize ext w =
     (let mapValueCopy0 = (mapValue w)(''fromaccount'' \<mapsto> []);
          mapValueCopy1 = WriteOrderPos ext (nOrderPos w) mapValueCopy0;
          mapValueCopy = (if nTimeSmart w \<noteq> 0
                          then mapValueCopy1(''timesmart'' \<mapsto> strprintf_u ext (nTimeSmart w))
                          else mapValueCopy1);
          serializedHash = (if isAbandoned w then ABANDON_HASH ext
                            else hashBlock (m_confirm w));
          serializedIndex = (if isAbandoned w \<or> isConflicted w then - 1
                             else nIndex (m_confirm w))
      in \<lparr>s_tx = tx w, s_hashBlock = serializedHash, s_dummy_vector1 = [],
          s_nIndex = serializedIndex, s_dummy_vector2 = [],
          s_mapValue = mapValueCopy, s_vOrderForm = vOrderForm w,
          s_fTimeReceivedIsTxTime = fTimeReceivedIsTxTime w,
          s_nTimeReceived = nTimeReceived w, s_fFromMe = fFromMe w,
          s_dummy_bool = False\<rparr>)"

text \<open>
  \<open>Unserialize\<close> overwrites the object it is called on: \<open>Init(nullptr)\<close>, then
  the fields read from the stream, then the status decoded from the pair of
  serialized hash and serialized index.
\<close>

definition Unserialize :: "externals \<Rightarrow> 'tx wtx_stream \<Rightarrow> 'tx CWalletTx \<Rightarrow> 'tx CWalletTx" where
  "Unserialize ext s w =
     (let w0 = Init None w;
          w1 = w0\<lparr>tx := s_tx s,
                  m_confirm := (m_confirm w0)\<lparr>hashBlock := s_hashBlock s\<rparr>,
                  mapValue := s_mapValue s,
                  vOrderForm := s_vOrderForm s,
                  fTimeReceivedIsTxTime := s_fTimeReceivedIsTxTime s,
                  nTimeReceived := s_nTimeReceived s,
                  fFromMe := s_fFromMe s\<rparr>;
          serializedIndex = s_nIndex s;
          w2 = (if serializedIndex = - 1 \<and> hashBlock (m_confirm w1) = ABANDON_HASH ext
                then setAbandoned w1
                else if serializedIndex = - 1
                then setConflicted w1
                else if \<not> IsNull (hashBlock (m_confirm w1))
                then setConfirmed (w1\<lparr>m_confirm := (m_confirm w1)\<lparr>nIndex := serializedIndex\<rparr>\<rparr>)
                else w1);
          w3 = w2\<lparr>nOrderPos := ReadOrderPos ext (mapValue w2)\<rparr>;
          w4 = w3\<lparr>nTimeSmart :=
                    (case mapValue w3 ''timesmart'' of None \<Rightarrow> 0
                     | Some v \<Rightarrow> ucast (atoi64 ext v))\<rparr>
      in w4\<lparr>mapValue :=
              ((((mapValue w4)(''fromaccount'' := None))(''spent'' := None))
                 (''n'' := None))(''timesmart'' := None)\<rparr>)"

section \<open>The pairing of confirmation status and block hash\<close>

text \<open>
  The invariant of the data model: a Confirmed or Conflicted record carries a
  non-null block hash, an Unconfirmed or Abandoned record the null hash.
\<close>

definition pairing :: "Confirmation \<Rightarrow> bool" where
  "pairing c =
     (case status c of
        UNCONFIRMED \<Rightarrow> IsNull (hashBlock c)
      | CONFIRMED \<Rightarrow> \<not> IsNull (hashBlock c)
      | CONFLICTED \<Rightarrow> \<not> IsNull (hashBlock c)
      | ABANDONED \<Rightarrow> IsNull (hashBlock c))"

text \<open>Concrete values for the evaluation of the model at explicit inputs.\<close>

definition ext_example :: externals where
  "ext_example =
     \<lparr>ABANDON_HASH = 1, ToString = (\<lambda>n. ''0''), atoi64 = (\<lambda>s. 0),
      strprintf_u = (\<lambda>n. ''0'')\<rparr>"

definition wtx_example :: "Status \<Rightarrow> cint \<Rightarrow> uint256 \<Rightarrow> cint \<Rightarrow> unit CWalletTx" where
  "wtx_example st h hb i =
     (CWalletTx_new None ())
       \<lparr>m_confirm := \<lparr>status = st, block_height = h, hashBlock = hb, nIndex = i\<rparr>\<rparr>"

section \<open>Preparing a transaction (WalletModel::prepareTransaction)\<close>

text \<open>
  The status codes that \<open>prepareTransaction\<close> returns, the recipient of the send
  dialog, the transaction under construction and the wallet interface it calls.
  The wallet interface is declared outside the sources: its calls are parameters
  of the model. The wallet behind the interface has a state \<open>'w\<close>: the queries
  read it, \<open>createTransaction\<close> may change it, and returns the new transaction
  (\<open>None\<close> for a null pointer) together with the final values of its output
  parameters. \<open>QSet\<close> is a list without duplicates. The fields of
  \<open>SendCoinsRecipient\<close> carry the prefix \<open>rcp_\<close>, since \<open>CRecipient\<close> has a
  field of the same name; \<open>wtx\<close> and \<open>fee\<close> are what \<open>getWtx\<close> and
  \<open>setTransactionFee\<close> of the transaction under construction access.

  Amounts are \<open>int64_t\<close>: sums wrap around as the machine addition does, and the
  comparisons are signed (\<open>sint\<close>).
\<close>

type_synonym CScript = "8 word list"

datatype StatusCode =
    OK
  | InvalidAmount
  | InvalidAddress
  | AmountExceedsBalance
  | AmountWithFeeExceedsBalance
  | DuplicateAddress
  | TransactionCreationFailed
  | AbsurdFee

record CRecipient =
  scriptPubKey :: CScript
  nAmount :: CAmount
  fSubtractFeeFromAmount :: bool

record SendCoinsRecipient =
  rcp_address :: string
  rcp_label :: string
  rcp_amount :: CAmount
  rcp_message :: string
  rcp_fSubtractFeeFromAmount :: bool

record 'tx WalletModelTransaction =
  recipients :: "SendCoinsRecipient list"
  wtx :: "'tx option"
  fee :: CAmount

record 'tx created =
  newTx :: "'tx option"
  nChangePosRet :: cint
  nFeeRequired :: CAmount
  strFailReason :: string

record ('tx, 'cc, 'w) wallet_interface =
  IsValidDestinationString :: "string \<Rightarrow> bool"
  GetScriptForDestination :: "string \<Rightarrow> CScript"
  getAvailableBalance :: "'cc \<Rightarrow> 'w \<Rightarrow> CAmount"
  privateKeysDisabled :: "'w \<Rightarrow> bool"
  createTransaction :: "CRecipient list \<Rightarrow> 'cc \<Rightarrow> bool \<Rightarrow> 'w \<Rightarrow> 'tx created \<times> 'w"
  getDefaultMaxTxFee :: "'w \<Rightarrow> CAmount"
  reassignAmounts :: "cint \<Rightarrow> 'tx WalletModelTransaction \<Rightarrow> 'tx WalletModelTransaction"

definition validateAddress :: "('tx, 'cc, 'w) wallet_interface \<Rightarrow> string \<Rightarrow> bool" where
  "validateAddress iface a = IsValidDestinationString iface a"

text \<open>
  The local variables of \<open>prepareTransaction\<close> that the loop over the recipients
  updates, and the loop itself, which returns at the first invalid recipient.
\<close>

record precheck =
  pc_fSubtractFeeFromAmount :: bool
  pc_setAddress :: "string list"
  pc_nAddresses :: nat
  pc_vecSend :: "CRecipient list"
  pc_total :: CAmount

definition precheck_start :: precheck where
  "precheck_start =
     \<lparr>pc_fSubtractFeeFromAmount = False, pc_setAddress = [], pc_nAddresses = 0,
      pc_vecSend = [], pc_total = 0\<rparr>"

fun precheck_loop ::
  "('tx, 'cc, 'w) wallet_interface \<Rightarrow> SendCoinsRecipient list \<Rightarrow> precheck
   \<Rightarrow> StatusCode + precheck"
where
  "precheck_loop iface [] st = Inr st"
| "precheck_loop iface (rcp # rest) st =
     (let st1 = (if rcp_fSubtractFeeFromAmount rcp
                 then st\<lparr>pc_fSubtractFeeFromAmount := True\<rparr> else st)
      in if \<not> validateAddress iface (rcp_address rcp) then Inl InvalidAddress
         else if sint (rcp_amount rcp) \<le> 0 then Inl InvalidAmount
         else precheck_loop iface rest
                (st1\<lparr>pc_setAddress := List.insert (rcp_address rcp) (pc_setAddress st1),
                     pc_nAddresses := pc_nAddresses st1 + 1,
                     pc_vecSend := pc_vecSend st1 @
                        [\<lparr>scriptPubKey = GetScriptForDestination iface (rcp_address rcp),
                          nAmount = rcp_amount rcp,
                          fSubtractFeeFromAmount = rcp_fSubtractFeeFromAmount rcp\<rparr>],
                     pc_total := pc_total st1 + rcp_amount rcp\<rparr>))"

text \<open>
  What a call leaves behind: the returned status, the transaction under
  construction, the messages emitted to the user interface and the state of the
  wallet.
\<close>

record ('tx, 'w) prepared =
  result :: StatusCode
  transaction_out :: "'tx WalletModelTransaction"
  messages :: "(string \<times> string) list"
  wallet_out :: 'w

definition prepareTransaction ::
  "('tx, 'cc, 'w) wallet_interface \<Rightarrow> 'tx WalletModelTransaction \<Rightarrow> 'cc \<Rightarrow> 'w
   \<Rightarrow> ('tx, 'w) prepared"
where
  "prepareTransaction iface transaction coinControl w =
     (if recipients transaction = []
      then \<lparr>result = OK, transaction_out = transaction, messages = [], wallet_out = w\<rparr>
      else
        case precheck_loop iface (recipients transaction) precheck_start of
          Inl e \<Rightarrow> \<lparr>result = e, transaction_out = transaction, messages = [], wallet_out = w\<rparr>
        | Inr st \<Rightarrow>
            if length (pc_setAddress st) \<noteq> pc_nAddresses st
            then \<lparr>result = DuplicateAddress, transaction_out = transaction, messages = [],
                   wallet_out = w\<rparr>
            else
              let nBalance = getAvailableBalance iface coinControl w in
              if sint nBalance < sint (pc_total st)
              then \<lparr>result = AmountExceedsBalance, transaction_out = transaction,
                     messages = [], wallet_out = w\<rparr>
              else
                let (c, w') = createTransaction iface (pc_vecSend st) coinControl
                                (\<not> privateKeysDisabled iface w) w;
                    t1 = transaction\<lparr>wtx := newTx c, fee := nFeeRequired c\<rparr>;
                    t2 = (if pc_fSubtractFeeFromAmount st \<and> newTx c \<noteq> None
                          then reassignAmounts iface (nChangePosRet c) t1 else t1)
                in if newTx c = None
                   then if \<not> pc_fSubtractFeeFromAmount st
                           \<and> sint nBalance < sint (pc_total st + nFeeRequired c)
                        then \<lparr>result = AmountWithFeeExceedsBalance, transaction_out = t2,
                               messages = [], wallet_out = w'\<rparr>
                        else \<lparr>result = TransactionCreationFailed, transaction_out = t2,
                               messages = [(''Send Coins'', strFailReason c)],
                               wallet_out = w'\<rparr>
                   else if sint (getDefaultMaxTxFee iface w') < sint (nFeeRequired c)
                        then \<lparr>result = AbsurdFee, transaction_out = t2, messages = [],
                               wallet_out = w'\<rparr>
                        else \<lparr>result = OK, transaction_out = t2, messages = [],
                               wallet_out = w'\<rparr>)"

text \<open>
  The request passes the pre-checks of the recipients; the total of the
  recipients' amounts as an integer; the recipients as the loop hands them to
  \<open>createTransaction\<close>.
\<close>

definition well_formed_request ::
  "('tx, 'cc, 'w) wallet_interface \<Rightarrow> SendCoinsRecipient list \<Rightarrow> bool" where
  "well_formed_request iface rs =
     (rs \<noteq> []
      \<and> list_all (\<lambda>r. validateAddress iface (rcp_address r) \<and> 0 < sint (rcp_amount r)) rs
      \<and> distinct (map rcp_address rs))"

definition total_amount :: "SendCoinsRecipient list \<Rightarrow> int" where
  "total_amount rs = sum_list (map (\<lambda>r. sint (rcp_amount r)) rs)"

definition vecSend_of ::
  "('tx, 'cc, 'w) wallet_interface \<Rightarrow> SendCoinsRecipient list \<Rightarrow> CRecipient list" where
  "vecSend_of iface rs =
     map (\<lambda>r. \<lparr>scriptPubKey = GetScriptForDestination iface (rcp_address r),
               nAmount = rcp_amount r,
               fSubtractFeeFromAmount = rcp_fSubtractFeeFromAmount r\<rparr>) rs"

text \<open>Concrete values for the evaluation of \<open>prepareTransaction\<close>.\<close>

definition iface_example ::
  "bool \<Rightarrow> nat option \<Rightarrow> CAmount \<Rightarrow> (nat, unit, unit) wallet_interface" where
  "iface_example valid created fee_req =
     \<lparr>IsValidDestinationString = (\<lambda>a. valid),
      GetScriptForDestination = (\<lambda>a. []),
      getAvailableBalance = (\<lambda>cc w. 10),
      privateKeysDisabled = (\<lambda>w. False),
      createTransaction = (\<lambda>v cc sign w.
         (\<lparr>newTx = created, nChangePosRet = - 1, nFeeRequired = fee_req,
           strFailReason = ''Insufficient funds''\<rparr>, w)),
      getDefaultMaxTxFee = (\<lambda>w. 100),
      reassignAmounts = (\<lambda>n t. t)\<rparr>"

definition recipient_example :: "string \<Rightarrow> CAmount \<Rightarrow> bool \<Rightarrow> SendCoinsRecipient" where
  "recipient_example a v sub =
     \<lparr>rcp_address = a, rcp_label = [], rcp_amount = v, rcp_message = [],
      rcp_fSubtractFeeFromAmount = sub\<rparr>"

definition request_example :: "CAmount \<Rightarrow> bool \<Rightarrow> nat WalletModelTransaction" where
  "request_example a sub =
     \<lparr>recipients = [recipient_example ''addr'' a sub], wtx = None, fee = 0\<rparr>"

definition request_two :: "CAmount \<Rightarrow> CAmount \<Rightarrow> nat WalletModelTransaction" where
  "request_two a b =
     \<lparr>recipients = [recipient_example ''addr1'' a False, recipient_example ''addr2'' b False],
      wtx = None, fee = 0\<rparr>"


section \<open>Polling the balance (WalletModel::pollBalanceChanged)\<close>

text \<open>
  The members of \<open>WalletModel\<close> that the poll reads and writes; a pointer to a
  table model is the flag whether it is set. \<open>'b\<close> is the type
  \<open>interfaces::WalletBalances\<close>.
\<close>

record 'b WalletModel =
  pollNum :: cint
  pollSyncSkip :: cint
  fForceCheckBalanceChanged :: bool
  cachedNumBlocks :: cint
  m_cached_balances :: 'b
  transactionTableModel :: bool
  tokenTransactionTableModel :: bool
  tokenItemModel :: bool
  delegationItemModel :: bool
  superStakerItemModel :: bool
  updateCoinAddresses :: bool
  updateStakeWeight :: bool

text \<open>
  The calls of the poll into the node and the wallet interface, which are
  declared outside the sources, are parameters. A call that returns \<open>false\<close> is
  \<open>None\<close>; a call that returns \<open>true\<close> is \<open>Some\<close> of the final values of its
  reference arguments. \<open>tryGetBalances\<close> is the non-blocking balance query: the poll
  uses it to "try to get balances and return early if locks can't be acquired",
  so that the user interface does not get stuck while the core holds the locks
  for a longer time, for example during a wallet rescan.
\<close>

record 'b poll_interface =
  tryGetSyncInfo :: "(cint \<times> bool) option"
  tryGetBalances :: "cint \<Rightarrow> bool \<Rightarrow> cint \<Rightarrow> ('b \<times> cint) option"
  balanceChanged :: "'b \<Rightarrow> 'b \<Rightarrow> bool"

text \<open>The signals emitted and the table models called, in their order.\<close>

datatype 'b poll_event =
    BalanceChangedSignal 'b
  | TransactionUpdateConfirmations
  | TokenTransactionUpdateConfirmations
  | CheckTokenBalanceChanged
  | CheckDelegationChanged
  | CheckSuperStakerChanged

definition checkBalanceChanged ::
  "'b poll_interface \<Rightarrow> 'b \<Rightarrow> 'b WalletModel \<Rightarrow> bool \<times> 'b WalletModel \<times> 'b poll_event list" where
  "checkBalanceChanged iface new_balances m =
     (if balanceChanged iface new_balances (m_cached_balances m)
      then (True, m\<lparr>m_cached_balances := new_balances\<rparr>, [BalanceChangedSignal new_balances])
      else (False, m, []))"

definition checkTokenBalanceChanged :: "'b WalletModel \<Rightarrow> 'b poll_event list" where
  "checkTokenBalanceChanged m = (if tokenItemModel m then [CheckTokenBalanceChanged] else [])"

definition checkDelegationChanged :: "'b WalletModel \<Rightarrow> 'b poll_event list" where
  "checkDelegationChanged m = (if delegationItemModel m then [CheckDelegationChanged] else [])"

definition checkSuperStakerChanged :: "'b WalletModel \<Rightarrow> 'b poll_event list" where
  "checkSuperStakerChanged m =
     (if superStakerItemModel m then [CheckSuperStakerChanged] else [])"

definition pollBalanceChanged ::
  "'b poll_interface \<Rightarrow> 'b WalletModel \<Rightarrow> 'b WalletModel \<times> 'b poll_event list" where
  "pollBalanceChanged iface m =
     (let m1 = m\<lparr>pollNum := pollNum m + 1\<rparr>
      in case tryGetSyncInfo iface of
           None \<Rightarrow> (m1, [])
         | Some (numBlocks0, isSyncing) \<Rightarrow>
             if isSyncing \<and> sint (pollNum m1) < sint (pollSyncSkip m1) then (m1, [])
             else
               (case tryGetBalances iface numBlocks0 (fForceCheckBalanceChanged m1)
                       (cachedNumBlocks m1) of
                 None \<Rightarrow> (m1, [])
               | Some (new_balances, numBlocks) \<Rightarrow>
                   let m2 = m1\<lparr>pollNum := 0\<rparr>;
                       cachedNumBlocksChanged = (numBlocks \<noteq> cachedNumBlocks m2);
                       m3 = m2\<lparr>fForceCheckBalanceChanged := False,
                               cachedNumBlocks := numBlocks\<rparr>;
                       (balance_changed, m4, e1) = checkBalanceChanged iface new_balances m3;
                       e2 = (if transactionTableModel m4
                             then [TransactionUpdateConfirmations] else []);
                       e3 = (if tokenTransactionTableModel m4
                             then [TokenTransactionUpdateConfirmations] else []);
                       e4 = (if cachedNumBlocksChanged
                             then checkTokenBalanceChanged m4 @ checkDelegationChanged m4
                                  @ checkSuperStakerChanged m4
                             else []);
                       m5 = (if balance_changed then m4\<lparr>updateCoinAddresses := True\<rparr> else m4);
                       m6 = (if \<not> isSyncing \<and> (balance_changed \<or> cachedNumBlocksChanged)
                             then m5\<lparr>updateStakeWeight := True\<rparr> else m5)
                   in (m6, e1 @ e2 @ e3 @ e4)))"

text \<open>Concrete values for the evaluation of the poll.\<close>

definition model_example :: "nat WalletModel" where
  "model_example =
     \<lparr>pollNum = 0, pollSyncSkip = 30, fForceCheckBalanceChanged = True, cachedNumBlocks = 99,
      m_cached_balances = 500, transactionTableModel = True,
      tokenTransactionTableModel = False, tokenItemModel = False,
      delegationItemModel = False, superStakerItemModel = False,
      updateCoinAddresses = False, updateStakeWeight = False\<rparr>"

definition poll_example :: "(nat \<times> cint) option \<Rightarrow> nat poll_interface" where
  "poll_example balances =
     \<lparr>tryGetSyncInfo = Some (100, False),
      tryGetBalances = (\<lambda>numBlocks force cached. balances),
      balanceChanged = (\<lambda>a b. a \<noteq> b)\<rparr>"


section \<open>Depth of a wallet transaction in the chain\<close>



section \<open>Recording an observed transaction in the ledger\<close>

text \<open>
  The raw transaction as far as the ledger reads it: its id and the outpoints it
  consumes. The ledger is the pair of \<open>CWallet::mapWallet\<close> and
  \<open>CWallet::mapTxSpends\<close> (a multimap, here a list of pairs).
\<close>

type_synonym COutPoint = "uint256 \<times> cuint"

record CTransaction =
  GetHash :: uint256
  vin :: "COutPoint list"

record ledger =
  mapWallet :: "uint256 \<rightharpoonup> CTransaction CWalletTx"
  mapTxSpends :: "(COutPoint \<times> uint256) list"

text \<open>
  Modelled from the spec: the "new non-conflicting evidence" of
  \<open>recordObservedTransaction\<close>: a fresh mempool sighting or a chain inclusion.
\<close>

definition non_conflicting_evidence :: "Confirmation \<Rightarrow> bool" where
  "non_conflicting_evidence confirm =
     (status confirm = UNCONFIRMED \<or> status confirm = CONFIRMED)"

text \<open>
  Modelled from the spec: \<open>CWallet::AddToSpends\<close>, declared in the header without
  its body: it registers the outpoints that the transaction consumes in the
  spend index.
\<close>

definition AddToSpends :: "CTransaction \<Rightarrow> (COutPoint \<times> uint256) list \<Rightarrow> (COutPoint \<times> uint256) list" where
  "AddToSpends t spends = fold (\<lambda>outpoint sp. List.insert (outpoint, GetHash t) sp) (vin t) spends"

text \<open>
  Modelled from the spec: \<open>CWallet::MarkInputsDirty\<close>, declared in the header
  without its body: it marks dirty the derived caches of the tracked transactions
  whose outputs the transaction consumes.
\<close>

definition MarkInputsDirty ::
  "CTransaction \<Rightarrow> (uint256 \<rightharpoonup> CTransaction CWalletTx) \<Rightarrow> (uint256 \<rightharpoonup> CTransaction CWalletTx)" where
  "MarkInputsDirty t mw =
     fold (\<lambda>outpoint m. case m (fst outpoint) of None \<Rightarrow> m
                         | Some prev \<Rightarrow> m(fst outpoint \<mapsto> MarkDirty prev)) (vin t) mw"

text \<open>
  Modelled from the spec: \<open>CWallet::AddToWalletIfInvolvingMe\<close>, the spec's
  \<open>recordObservedTransaction(tx, confirmation, allow_update)\<close>, which the header
  declares and whose body is not among the sources. It inserts or updates a
  transaction relevant to owned scripts; it is a no-op returning false if the
  transaction touches none of the owned scripts and is not tracked. The header
  says of a tracked transaction: "If fUpdate is true, existing transactions will
  be updated. TODO: One exception to this is that the abandoned state is cleared
  under the assumption that any further notification of a transaction that was
  considered abandoned is an indication that it is not safe to be considered
  abandoned." So a tracked transaction is updated if \<open>fUpdate\<close> holds, and whatever
  \<open>fUpdate\<close> is when it is abandoned and new non-conflicting evidence arrives:
  then the abandonment is cleared and the reported confirmation recorded. An
  abandoned transaction keeps its state when the evidence is a conflict. As a
  side effect of an insertion or update the consumed outpoints are registered in
  the spend index and the caches of the transactions whose outputs are consumed
  are marked dirty. Whether a transaction touches owned scripts is answered by
  the signing provider, a parameter.
\<close>

definition AddToWalletIfInvolvingMe ::
  "(CTransaction \<Rightarrow> bool) \<Rightarrow> CTransaction \<Rightarrow> Confirmation \<Rightarrow> bool \<Rightarrow> ledger \<Rightarrow> bool \<times> ledger" where
  "AddToWalletIfInvolvingMe touches_owned_scripts t confirm fUpdate l =
     (case mapWallet l (GetHash t) of
        None \<Rightarrow>
          if \<not> touches_owned_scripts t then (False, l)
          else (True,
                l\<lparr>mapWallet := (MarkInputsDirty t (mapWallet l))
                     (GetHash t \<mapsto> (CWalletTx_new None t)\<lparr>m_confirm := confirm\<rparr>),
                  mapTxSpends := AddToSpends t (mapTxSpends l)\<rparr>)
      | Some w \<Rightarrow>
          if \<not> fUpdate \<and> \<not> (isAbandoned w \<and> non_conflicting_evidence confirm)
          then (False, l)
          else (True,
                l\<lparr>mapWallet := (MarkInputsDirty t (mapWallet l))
                     (GetHash t \<mapsto>
                        MarkDirty (if isAbandoned w \<and> \<not> non_conflicting_evidence confirm
                                   then w else w\<lparr>m_confirm := confirm\<rparr>)),
                  mapTxSpends := AddToSpends t (mapTxSpends l)\<rparr>))"

text \<open>Concrete values for the evaluation of the ledger.\<close>

definition tx_example :: CTransaction where
  "tx_example = \<lparr>GetHash = 5, vin = [(3, 0)]\<rparr>"

definition ledger_example :: ledger where
  "ledger_example =
     \<lparr>mapWallet = Map.empty(5 \<mapsto> setAbandoned (CWalletTx_new None tx_example)),
      mapTxSpends = [((3, 0), 5)]\<rparr>"

definition mempool_sighting :: Confirmation where
  "mempool_sighting = \<lparr>status = UNCONFIRMED, block_height = 0, hashBlock = 0, nIndex = 0\<rparr>"

definition block_inclusion :: Confirmation where
  "block_inclusion = \<lparr>status = CONFIRMED, block_height = 12, hashBlock = 7, nIndex = 1\<rparr>"

section \<open>Coin selection\<close>

text \<open>
  The functions \<open>CWallet::SelectCoins\<close> and \<open>CWallet::SelectCoinsMinConf\<close>, the
  spec's \<open>select(candidates, target_value, eligibility_filter, coin_control)\<close>,
  are declared in the header and their bodies are not among the sources, nor are
  the types \<open>CCoinControl\<close> and \<open>CoinEligibilityFilter\<close> they take. This section
  models them from the spec.

  Modelled from the spec: a candidate output (class \<open>COutput\<close>) is a view of one
  unspent output: the outpoint (owning transaction and output index), its value,
  its depth in the chain, the estimated size as a signed input, the flags
  spendable, solvable and safe, and whether the owning transaction originated
  from this wallet. The coin control pins outputs and may allow unsafe inputs.
  The caller supplies the node budget of the search, the cost of a future
  consolidation of an input, the excess a near-exact match may have, and the
  estimated fee. The eligibility filter is a predicate on candidates. The values
  of outputs, the target and the fee are the integers of the spec (\<open>amount\<close>).
\<close>

type_synonym amount = int

record CandidateOutput =
  outpoint :: COutPoint
  nValue :: amount
  nDepth :: int
  nInputBytes :: int
  fSpendable :: bool
  fSolvable :: bool
  fSafe :: bool
  from_me :: bool















section \<open>Building a transaction\<close>











section \<open>Theorems\<close>

text \<open>
  C7. A newly created wallet transaction starts in the Unconfirmed state: after
  \<open>Init\<close>, and so after construction, the confirmation record has status
  Unconfirmed, block height 0, the null block hash and in-block index 0.
\<close>

theorem C7_new_transaction_unconfirmed:
  "m_confirm (Init pw w) =
     \<lparr>status = UNCONFIRMED, block_height = 0, hashBlock = 0, nIndex = 0\<rparr>
   \<and> m_confirm (CWalletTx_new pw arg) =
     \<lparr>status = UNCONFIRMED, block_height = 0, hashBlock = 0, nIndex = 0\<rparr>
   \<and> isUnconfirmed (CWalletTx_new pw arg)
   \<and> IsNull (hashBlock (m_confirm (CWalletTx_new pw arg)))"
  by (simp add: Init_def CWalletTx_new_def Confirmation_default_def isUnconfirmed_def
      IsNull_def)

text \<open>
  C8. \<open>MarkDirty\<close> resets the four memoized amount caches (debit, credit, immature
  credit, available credit), clears the cached-change flag and sets the
  caches-empty flag; every other field of the transaction keeps its value.
\<close>

theorem C8_MarkDirty_frame:
  "m_amounts (MarkDirty w) DEBIT = Reset (m_amounts w DEBIT)
   \<and> m_amounts (MarkDirty w) CREDIT = Reset (m_amounts w CREDIT)
   \<and> m_amounts (MarkDirty w) IMMATURE_CREDIT = Reset (m_amounts w IMMATURE_CREDIT)
   \<and> m_amounts (MarkDirty w) AVAILABLE_CREDIT = Reset (m_amounts w AVAILABLE_CREDIT)
   \<and> m_amounts (MarkDirty w) t f = None
   \<and> fChangeCached (MarkDirty w) = False
   \<and> m_is_cache_empty (MarkDirty w) = True
   \<and> MarkDirty w =
       w\<lparr>m_amounts := m_amounts (MarkDirty w), fChangeCached := False,
         m_is_cache_empty := True\<rparr>
   \<and> tx (MarkDirty w) = tx w
   \<and> m_confirm (MarkDirty w) = m_confirm w
   \<and> nTimeReceived (MarkDirty w) = nTimeReceived w
   \<and> nTimeSmart (MarkDirty w) = nTimeSmart w
   \<and> fTimeReceivedIsTxTime (MarkDirty w) = fTimeReceivedIsTxTime w
   \<and> mapValue (MarkDirty w) = mapValue w
   \<and> vOrderForm (MarkDirty w) = vOrderForm w
   \<and> fFromMe (MarkDirty w) = fFromMe w
   \<and> nOrderPos (MarkDirty w) = nOrderPos w
   \<and> m_it_wtxOrdered (MarkDirty w) = m_it_wtxOrdered w
   \<and> fInMempool (MarkDirty w) = fInMempool w
   \<and> nChangeCached (MarkDirty w) = nChangeCached w
   \<and> pwallet (MarkDirty w) = pwallet w"
  by (cases t) (simp_all add: MarkDirty_def Reset_def)

text \<open>
  C1 (as stated, refuted). A freshly constructed transaction is Unconfirmed with
  the null hash, so the pairing holds; \<open>setConflicted\<close> writes the status alone and
  leaves a Conflicted record with the null hash.
\<close>

theorem C1_setConflicted_counterexample:
  "pairing (m_confirm (CWalletTx_new None ()))
   \<and> \<not> pairing (m_confirm (setConflicted (CWalletTx_new None ())))"
  by (simp add: pairing_def CWalletTx_new_def Init_def Confirmation_default_def
      setConflicted_def IsNull_def)

text \<open>
  C1 (amended). \<open>setAbandoned\<close> always leaves a paired record, since it clears the
  hash with the status. \<open>setConfirmed\<close>, \<open>setConflicted\<close> and \<open>setUnconfirmed\<close>
  write the status alone: \<open>setConfirmed\<close> and \<open>setConflicted\<close> leave a paired
  record when the recorded block hash is non-null, \<open>setUnconfirmed\<close> when it is
  null. Deserialization leaves a paired record for every stream other than one
  that holds index -1 together with a null hash.
\<close>

theorem C1_status_changes_pairing:
  "pairing (m_confirm (setAbandoned w))
   \<and> (hashBlock (m_confirm w) \<noteq> 0 \<longrightarrow> pairing (m_confirm (setConfirmed w)))
   \<and> (hashBlock (m_confirm w) \<noteq> 0 \<longrightarrow> pairing (m_confirm (setConflicted w)))
   \<and> (hashBlock (m_confirm w) = 0 \<longrightarrow> pairing (m_confirm (setUnconfirmed w)))
   \<and> (s_nIndex s \<noteq> - 1 \<or> s_hashBlock s \<noteq> 0 \<longrightarrow>
        pairing (m_confirm (Unserialize ext s w')))"
proof -
  have a: "pairing (m_confirm (setAbandoned w))"
    by (simp add: pairing_def setAbandoned_def IsNull_def)
  have b: "hashBlock (m_confirm w) \<noteq> 0 \<longrightarrow> pairing (m_confirm (setConfirmed w))"
    by (simp add: pairing_def setConfirmed_def IsNull_def)
  have c: "hashBlock (m_confirm w) \<noteq> 0 \<longrightarrow> pairing (m_confirm (setConflicted w))"
    by (simp add: pairing_def setConflicted_def IsNull_def)
  have d: "hashBlock (m_confirm w) = 0 \<longrightarrow> pairing (m_confirm (setUnconfirmed w))"
    by (simp add: pairing_def setUnconfirmed_def IsNull_def)
  have e: "s_nIndex s \<noteq> - 1 \<or> s_hashBlock s \<noteq> 0 \<longrightarrow>
        pairing (m_confirm (Unserialize ext s w'))"
    by (auto simp add: pairing_def Unserialize_def Let_def Init_def Confirmation_default_def
        setAbandoned_def setConflicted_def setConfirmed_def IsNull_def)
  from a b c d e show ?thesis by blast
qed

theorem C1_status_changes_pairing_witness:
  "pairing (m_confirm (setAbandoned (wtx_example CONFIRMED 10 7 3)))
   \<and> pairing (m_confirm (setConfirmed (wtx_example CONFLICTED 10 7 3)))
   \<and> pairing (m_confirm (setConflicted (wtx_example CONFIRMED 10 7 3)))
   \<and> pairing (m_confirm (setUnconfirmed (wtx_example ABANDONED 0 0 0)))
   \<and> pairing (m_confirm (Unserialize ext_example
        (Serialize ext_example (wtx_example CONFIRMED 10 7 3)) (CWalletTx_new None ())))"
proof -
  have h: "hashBlock (m_confirm (wtx_example CONFIRMED 10 7 3)) \<noteq> 0"
    "hashBlock (m_confirm (wtx_example CONFLICTED 10 7 3)) \<noteq> 0"
    "hashBlock (m_confirm (wtx_example ABANDONED 0 0 0)) = 0"
    by (simp_all add: wtx_example_def)
  have i: "s_nIndex (Serialize ext_example (wtx_example CONFIRMED 10 7 3)) \<noteq> - 1"
    by (simp add: wtx_example_def Serialize_def Let_def isAbandoned_def isConflicted_def)
  from h i
    C1_status_changes_pairing [of "wtx_example CONFIRMED 10 7 3"
      "Serialize ext_example (wtx_example CONFIRMED 10 7 3)" ext_example "CWalletTx_new None ()"]
    C1_status_changes_pairing [of "wtx_example CONFLICTED 10 7 3"]
    C1_status_changes_pairing [of "wtx_example ABANDONED 0 0 0"]
  show ?thesis by blast
qed

text \<open>
  C10 (as stated, refuted). A Confirmed record with a non-null hash satisfies the
  pairing; when its in-block index is -1, the value that the stream reserves for
  Conflicted and Abandoned, it is read back as Conflicted.
\<close>

theorem C10_roundtrip_counterexample:
  "pairing (m_confirm (wtx_example CONFIRMED 10 7 (- 1)))
   \<and> status (m_confirm (wtx_example CONFIRMED 10 7 (- 1))) = CONFIRMED
   \<and> status (m_confirm (Unserialize ext_example
        (Serialize ext_example (wtx_example CONFIRMED 10 7 (- 1)))
        (CWalletTx_new None ()))) = CONFLICTED"
  by (simp add: pairing_def wtx_example_def Serialize_def Unserialize_def Let_def
      isAbandoned_def isConflicted_def ext_example_def Init_def CWalletTx_new_def
      Confirmation_default_def setConflicted_def IsNull_def)

text \<open>
  C10 (amended). For a transaction whose confirmation satisfies the pairing,
  whose in-block index is not -1 when it is Unconfirmed or Confirmed, and whose
  block hash is not \<open>ABANDON_HASH\<close> when it is Conflicted, deserializing the
  serialized transaction restores the status and the block hash, and for a
  Confirmed transaction the in-block index.
\<close>

theorem C10_roundtrip:
  assumes "pairing (m_confirm w)"
    and "status (m_confirm w) = UNCONFIRMED \<or> status (m_confirm w) = CONFIRMED
         \<Longrightarrow> nIndex (m_confirm w) \<noteq> - 1"
    and "status (m_confirm w) = CONFLICTED \<Longrightarrow> hashBlock (m_confirm w) \<noteq> ABANDON_HASH ext"
  shows "status (m_confirm (Unserialize ext (Serialize ext w) w')) = status (m_confirm w)
       \<and> hashBlock (m_confirm (Unserialize ext (Serialize ext w) w')) = hashBlock (m_confirm w)
       \<and> (status (m_confirm w) = CONFIRMED \<longrightarrow>
            nIndex (m_confirm (Unserialize ext (Serialize ext w) w')) = nIndex (m_confirm w))"
proof (cases "status (m_confirm w)")
  case UNCONFIRMED
  with assms show ?thesis
    by (simp add: pairing_def Serialize_def Unserialize_def Let_def isAbandoned_def
        isConflicted_def Init_def Confirmation_default_def IsNull_def)
next
  case CONFIRMED
  with assms show ?thesis
    by (simp add: pairing_def Serialize_def Unserialize_def Let_def isAbandoned_def
        isConflicted_def Init_def Confirmation_default_def IsNull_def setConfirmed_def)
next
  case CONFLICTED
  with assms show ?thesis
    by (simp add: pairing_def Serialize_def Unserialize_def Let_def isAbandoned_def
        isConflicted_def Init_def Confirmation_default_def IsNull_def setConflicted_def)
next
  case ABANDONED
  with assms show ?thesis
    by (simp add: pairing_def Serialize_def Unserialize_def Let_def isAbandoned_def
        isConflicted_def Init_def Confirmation_default_def IsNull_def setAbandoned_def)
qed

theorem C10_roundtrip_witness:
  "pairing (m_confirm (wtx_example CONFIRMED 10 7 3))
   \<and> status (m_confirm (Unserialize ext_example
        (Serialize ext_example (wtx_example CONFIRMED 10 7 3))
        (CWalletTx_new None ()))) = CONFIRMED
   \<and> hashBlock (m_confirm (Unserialize ext_example
        (Serialize ext_example (wtx_example CONFIRMED 10 7 3))
        (CWalletTx_new None ()))) = 7
   \<and> nIndex (m_confirm (Unserialize ext_example
        (Serialize ext_example (wtx_example CONFIRMED 10 7 3))
        (CWalletTx_new None ()))) = 3
   \<and> pairing (m_confirm (wtx_example CONFLICTED 10 7 0))
   \<and> hashBlock (m_confirm (wtx_example CONFLICTED 10 7 0)) \<noteq> ABANDON_HASH ext_example
   \<and> status (m_confirm (Unserialize ext_example
        (Serialize ext_example (wtx_example CONFLICTED 10 7 0))
        (CWalletTx_new None ()))) = CONFLICTED
   \<and> hashBlock (m_confirm (Unserialize ext_example
        (Serialize ext_example (wtx_example CONFLICTED 10 7 0))
        (CWalletTx_new None ()))) = 7"
  using C10_roundtrip [of "wtx_example CONFIRMED 10 7 3" ext_example "CWalletTx_new None ()"]
    C10_roundtrip [of "wtx_example CONFLICTED 10 7 0" ext_example "CWalletTx_new None ()"]
  by (simp add: pairing_def wtx_example_def ext_example_def IsNull_def)

subsection \<open>prepareTransaction\<close>

lemma fold_insert_set:
  "set (fold List.insert xs acc) = set acc \<union> set xs"
  by (induction xs arbitrary: acc) auto

lemma fold_insert_distinct:
  "distinct acc \<Longrightarrow> distinct (fold List.insert xs acc)"
  by (induction xs arbitrary: acc) auto

lemma fold_insert_length:
  "length (fold List.insert xs []) = card (set xs)"
proof -
  have "distinct (fold List.insert xs [])" by (rule fold_insert_distinct) simp
  then have "length (fold List.insert xs []) = card (set (fold List.insert xs []))"
    by (simp add: distinct_card)
  then show ?thesis by (simp add: fold_insert_set)
qed

text \<open>Signed 64-bit addition agrees with the integers while the sum is in range.\<close>

lemma sint_add_in_range:
  fixes a b :: "64 word"
  assumes "- (2 ^ 63) \<le> sint a + sint b" and "sint a + sint b < 2 ^ 63"
  shows "sint (a + b) = sint a + sint b"
  using assms by (simp add: sint_word_ariths signed_take_bit_int_eq_self)

lemma sint_sum_list_in_range:
  fixes xs :: "64 word list"
  assumes "list_all (\<lambda>a. 0 < sint a) xs" and "sum_list (map sint xs) < 2 ^ 63"
  shows "sint (sum_list xs) = sum_list (map sint xs)"
  using assms
proof (induction xs)
  case Nil
  then show ?case by simp
next
  case (Cons a xs)
  from Cons.prems have pos: "0 < sint a" and all: "list_all (\<lambda>a. 0 < sint a) xs"
    by simp_all
  from all have nonneg: "0 \<le> sum_list (map sint xs)"
    by (induction xs) auto
  from Cons.prems(2) pos have "sum_list (map sint xs) < 2 ^ 63" by simp
  from Cons.IH [OF all this] have ih: "sint (sum_list xs) = sum_list (map sint xs)" .
  have "sint (a + sum_list xs) = sint a + sint (sum_list xs)"
  proof (rule sint_add_in_range)
    from pos nonneg ih show "- (2 ^ 63) \<le> sint a + sint (sum_list xs)" by simp
    from Cons.prems(2) ih show "sint a + sint (sum_list xs) < 2 ^ 63" by simp
  qed
  with ih show ?case by simp
qed

lemma precheck_loop_ok:
  "list_all (\<lambda>r. validateAddress iface (rcp_address r) \<and> 0 < sint (rcp_amount r)) rs \<Longrightarrow>
   precheck_loop iface rs st =
     Inr \<lparr>pc_fSubtractFeeFromAmount =
            (pc_fSubtractFeeFromAmount st \<or> list_ex rcp_fSubtractFeeFromAmount rs),
          pc_setAddress = fold List.insert (map rcp_address rs) (pc_setAddress st),
          pc_nAddresses = pc_nAddresses st + length rs,
          pc_vecSend = pc_vecSend st @ vecSend_of iface rs,
          pc_total = pc_total st + sum_list (map rcp_amount rs)\<rparr>"
proof (induction rs arbitrary: st)
  case Nil
  then show ?case by (simp add: vecSend_of_def)
next
  case (Cons r rs)
  then show ?case
    by (simp add: vecSend_of_def Let_def add.assoc)
qed

lemma total_in_range:
  assumes "list_all (\<lambda>r. validateAddress iface (rcp_address r) \<and> 0 < sint (rcp_amount r)) rs"
    and "total_amount rs < 2 ^ 63"
  shows "sint (sum_list (map rcp_amount rs)) = total_amount rs"
proof -
  from assms(1) have "list_all (\<lambda>a. 0 < sint a) (map rcp_amount rs)"
    by (induction rs) auto
  moreover from assms(2) have "sum_list (map sint (map rcp_amount rs)) < 2 ^ 63"
    by (simp add: total_amount_def comp_def)
  ultimately have "sint (sum_list (map rcp_amount rs)) = sum_list (map sint (map rcp_amount rs))"
    by (rule sint_sum_list_in_range)
  then show ?thesis by (simp add: total_amount_def comp_def)
qed

lemma total_amount_nonneg:
  "list_all (\<lambda>r. validateAddress iface (rcp_address r) \<and> 0 < sint (rcp_amount r)) rs
   \<Longrightarrow> 0 \<le> total_amount rs"
  by (induction rs) (auto simp: total_amount_def)

lemma total_amount_pos:
  assumes "rs \<noteq> []"
    and "list_all (\<lambda>r. validateAddress iface (rcp_address r) \<and> 0 < sint (rcp_amount r)) rs"
  shows "0 < total_amount rs"
proof (cases rs)
  case Nil
  with assms(1) show ?thesis by simp
next
  case (Cons r rest)
  with assms(2) have "0 < sint (rcp_amount r)"
    and "list_all (\<lambda>r. validateAddress iface (rcp_address r) \<and> 0 < sint (rcp_amount r)) rest"
    by simp_all
  from this(1) total_amount_nonneg [OF this(2)] Cons show ?thesis
    by (simp add: total_amount_def)
qed

lemma precheck_well_formed:
  assumes "well_formed_request iface rs" and "total_amount rs < 2 ^ 63"
  shows "\<exists>st. precheck_loop iface rs precheck_start = Inr st
          \<and> length (pc_setAddress st) = pc_nAddresses st
          \<and> sint (pc_total st) = total_amount rs
          \<and> pc_vecSend st = vecSend_of iface rs
          \<and> pc_fSubtractFeeFromAmount st = list_ex rcp_fSubtractFeeFromAmount rs"
proof -
  from assms have v: "list_all (\<lambda>r. validateAddress iface (rcp_address r) \<and> 0 < sint (rcp_amount r)) rs"
    and d: "distinct (map rcp_address rs)"
    by (simp_all add: well_formed_request_def)
  from d have "card (set (map rcp_address rs)) = length rs"
    using distinct_card by fastforce
  then show ?thesis
    by (simp add: precheck_loop_ok [OF v] precheck_start_def fold_insert_length
        total_in_range [OF v assms(2)])
qed

text \<open>
  C6 (amended). A request that passes the pre-checks of its recipients (at least
  one recipient, every address valid, every amount positive, no address twice)
  and whose total stays in the range of \<open>int64_t\<close> gets a typed result:
  AmountExceedsBalance if the total exceeds the available balance; otherwise
  AmountWithFeeExceedsBalance if the creation of the transaction fails, no
  recipient has the fee subtracted from the amount and total plus required fee
  exceeds the balance and stays in the range of \<open>int64_t\<close>; otherwise AbsurdFee if
  the transaction is created and the required fee exceeds the default maximum
  fee.
\<close>

theorem C6_prepareTransaction_policy_failures:
  assumes wf: "well_formed_request iface (recipients t)"
    and range: "total_amount (recipients t) < 2 ^ 63"
  shows "(sint (getAvailableBalance iface cc w) < total_amount (recipients t) \<longrightarrow>
            result (prepareTransaction iface t cc w) = AmountExceedsBalance)
       \<and> (total_amount (recipients t) \<le> sint (getAvailableBalance iface cc w)
          \<and> newTx (fst (createTransaction iface (vecSend_of iface (recipients t)) cc
                     (\<not> privateKeysDisabled iface w) w)) = None
          \<and> \<not> list_ex rcp_fSubtractFeeFromAmount (recipients t)
          \<and> sint (getAvailableBalance iface cc w) < total_amount (recipients t)
              + sint (nFeeRequired (fst (createTransaction iface
                     (vecSend_of iface (recipients t)) cc (\<not> privateKeysDisabled iface w) w)))
          \<and> total_amount (recipients t)
              + sint (nFeeRequired (fst (createTransaction iface
                     (vecSend_of iface (recipients t)) cc (\<not> privateKeysDisabled iface w) w)))
              < 2 ^ 63 \<longrightarrow>
            result (prepareTransaction iface t cc w) = AmountWithFeeExceedsBalance)
       \<and> (total_amount (recipients t) \<le> sint (getAvailableBalance iface cc w)
          \<and> newTx (fst (createTransaction iface (vecSend_of iface (recipients t)) cc
                     (\<not> privateKeysDisabled iface w) w)) \<noteq> None
          \<and> sint (getDefaultMaxTxFee iface (snd (createTransaction iface
                     (vecSend_of iface (recipients t)) cc (\<not> privateKeysDisabled iface w) w)))
              < sint (nFeeRequired (fst (createTransaction iface
                     (vecSend_of iface (recipients t)) cc (\<not> privateKeysDisabled iface w) w)))
            \<longrightarrow> result (prepareTransaction iface t cc w) = AbsurdFee)"
proof -
  let ?cr = "createTransaction iface (vecSend_of iface (recipients t)) cc
               (\<not> privateKeysDisabled iface w) w"
  from wf have ne: "recipients t \<noteq> []"
    and v: "list_all (\<lambda>r. validateAddress iface (rcp_address r) \<and> 0 < sint (rcp_amount r))
              (recipients t)"
    by (simp_all add: well_formed_request_def)
  from precheck_well_formed [OF wf range] obtain st where
    st: "precheck_loop iface (recipients t) precheck_start = Inr st"
      "length (pc_setAddress st) = pc_nAddresses st"
      "sint (pc_total st) = total_amount (recipients t)"
      "pc_vecSend st = vecSend_of iface (recipients t)"
      "pc_fSubtractFeeFromAmount st = list_ex rcp_fSubtractFeeFromAmount (recipients t)"
    by blast
  have fee: "sint (pc_total st + nFeeRequired (fst ?cr))
               = total_amount (recipients t) + sint (nFeeRequired (fst ?cr))"
    if "total_amount (recipients t) + sint (nFeeRequired (fst ?cr)) < 2 ^ 63"
  proof -
    have "- (2 ^ 63) \<le> sint (nFeeRequired (fst ?cr))"
      using sint_ge [of "nFeeRequired (fst ?cr)"] by simp
    with total_amount_pos [OF ne v]
    have "- (2 ^ 63) \<le> sint (pc_total st) + sint (nFeeRequired (fst ?cr))"
      by (simp add: st(3))
    moreover from that have "sint (pc_total st) + sint (nFeeRequired (fst ?cr)) < 2 ^ 63"
      by (simp add: st(3))
    ultimately show ?thesis
      by (simp add: sint_add_in_range st(3))
  qed
  have a: "sint (getAvailableBalance iface cc w) < total_amount (recipients t) \<longrightarrow>
            result (prepareTransaction iface t cc w) = AmountExceedsBalance"
    by (simp add: prepareTransaction_def ne st Let_def)
  have b: "total_amount (recipients t) \<le> sint (getAvailableBalance iface cc w)
          \<and> newTx (fst ?cr) = None
          \<and> \<not> list_ex rcp_fSubtractFeeFromAmount (recipients t)
          \<and> sint (getAvailableBalance iface cc w) < total_amount (recipients t)
              + sint (nFeeRequired (fst ?cr))
          \<and> total_amount (recipients t) + sint (nFeeRequired (fst ?cr)) < 2 ^ 63 \<longrightarrow>
            result (prepareTransaction iface t cc w) = AmountWithFeeExceedsBalance"
    using fee by (auto simp add: prepareTransaction_def ne st Let_def case_prod_beta)
  have c: "total_amount (recipients t) \<le> sint (getAvailableBalance iface cc w)
          \<and> newTx (fst ?cr) \<noteq> None
          \<and> sint (getDefaultMaxTxFee iface (snd ?cr)) < sint (nFeeRequired (fst ?cr))
            \<longrightarrow> result (prepareTransaction iface t cc w) = AbsurdFee"
    by (auto simp add: prepareTransaction_def ne st Let_def case_prod_beta)
  from a b c show ?thesis by blast
qed

theorem C6_prepareTransaction_policy_failures_witness:
  "well_formed_request (iface_example True None 7) (recipients (request_example 5 False))
  \<and> result (prepareTransaction (iface_example True None 7) (request_example 5 False) () ())
      = AmountWithFeeExceedsBalance
  \<and> result (prepareTransaction (iface_example True None 7) (request_example 50 False) () ())
      = AmountExceedsBalance
  \<and> result (prepareTransaction (iface_example True (Some 1) 700) (request_example 5 False) () ())
      = AbsurdFee"
  using C6_prepareTransaction_policy_failures [of "iface_example True None 7"
       "request_example 5 False" "()" "()"]
   C6_prepareTransaction_policy_failures [of "iface_example True None 7"
       "request_example 50 False" "()" "()"]
   C6_prepareTransaction_policy_failures [of "iface_example True (Some 1) 700"
       "request_example 5 False" "()" "()"]
  by (simp add: well_formed_request_def iface_example_def request_example_def
     recipient_example_def total_amount_def validateAddress_def vecSend_of_def)

text \<open>
  C6 (as stated, refuted). A total above the balance with an invalid address is
  answered InvalidAddress; a failed creation whose total plus fee exceeds the
  balance is answered TransactionCreationFailed when a recipient has the fee
  subtracted from the amount; two recipients of \<open>2 ^ 62\<close> each, whose total
  exceeds the balance of 10, are answered OK, since the 64-bit sum is negative;
  a failed creation with total 5 and required fee \<open>2 ^ 63 - 1\<close> is answered
  TransactionCreationFailed, since the 64-bit sum of total and fee is negative.
\<close>

theorem C6_counterexample:
  "sint (getAvailableBalance (iface_example False None 0) () ())
      < total_amount (recipients (request_example 50 False))
   \<and> result (prepareTransaction (iface_example False None 0) (request_example 50 False) () ())
      = InvalidAddress
   \<and> newTx (fst (createTransaction (iface_example True None 7)
        (vecSend_of (iface_example True None 7) (recipients (request_example 5 True)))
        () True ())) = None
   \<and> sint (getAvailableBalance (iface_example True None 7) () ())
      < total_amount (recipients (request_example 5 True)) + 7
   \<and> result (prepareTransaction (iface_example True None 7) (request_example 5 True) () ())
      = TransactionCreationFailed
   \<and> well_formed_request (iface_example True (Some 1) 0)
        (recipients (request_two 4611686018427387904 4611686018427387904))
   \<and> sint (getAvailableBalance (iface_example True (Some 1) 0) () ())
      < total_amount (recipients (request_two 4611686018427387904 4611686018427387904))
   \<and> result (prepareTransaction (iface_example True (Some 1) 0)
        (request_two 4611686018427387904 4611686018427387904) () ()) = OK
   \<and> newTx (fst (createTransaction (iface_example True None 9223372036854775807)
        (vecSend_of (iface_example True None 9223372036854775807)
           (recipients (request_example 5 False))) () True ())) = None
   \<and> sint (getAvailableBalance (iface_example True None 9223372036854775807) () ())
      < total_amount (recipients (request_example 5 False)) + 9223372036854775807
   \<and> result (prepareTransaction (iface_example True None 9223372036854775807)
        (request_example 5 False) () ()) = TransactionCreationFailed"
  by (simp add: prepareTransaction_def iface_example_def request_example_def request_two_def
      recipient_example_def total_amount_def precheck_start_def validateAddress_def Let_def
      well_formed_request_def)

subsection \<open>pollBalanceChanged\<close>

text \<open>
  C9 (as stated, refuted). A balance poll issued while the locks cannot be
  acquired does not wait for them: the non-blocking query \<open>tryGetBalances\<close>
  returns false, and the poll returns with the poll counted and nothing else
  changed, no balance read and no signal emitted.
\<close>

theorem C9_counterexample:
  "tryGetBalances (poll_example None) 100 True 99 = None
   \<and> pollBalanceChanged (poll_example None) model_example
       = (model_example\<lparr>pollNum := 1\<rparr>, [])"
  by (simp add: pollBalanceChanged_def poll_example_def model_example_def)

text \<open>
  C9 (amended). The interface has a non-blocking variant of the balance query,
  \<open>tryGetBalances\<close>, and the periodic poll uses it. When it returns false, as it
  does when the locks cannot be acquired, the poll returns at once: the poll is
  counted, the cached balances, the cached block count and the force flag keep
  their values and nothing is emitted. When it returns true, the poll counter is
  reset, the force flag cleared, the block count cached, and the cached balances
  replaced by the new ones if they changed.
\<close>

theorem C9_poll_does_not_block:
  "(tryGetSyncInfo iface = Some (numBlocks0, isSyncing)
    \<and> \<not> (isSyncing \<and> sint (pollNum m + 1) < sint (pollSyncSkip m))
    \<and> tryGetBalances iface numBlocks0 (fForceCheckBalanceChanged m) (cachedNumBlocks m) = None
    \<longrightarrow> pollBalanceChanged iface m = (m\<lparr>pollNum := pollNum m + 1\<rparr>, []))
   \<and> (tryGetSyncInfo iface = Some (numBlocks0, isSyncing)
    \<and> \<not> (isSyncing \<and> sint (pollNum m + 1) < sint (pollSyncSkip m))
    \<and> tryGetBalances iface numBlocks0 (fForceCheckBalanceChanged m) (cachedNumBlocks m)
        = Some (new_balances, numBlocks)
    \<longrightarrow> pollNum (fst (pollBalanceChanged iface m)) = 0
      \<and> \<not> fForceCheckBalanceChanged (fst (pollBalanceChanged iface m))
      \<and> cachedNumBlocks (fst (pollBalanceChanged iface m)) = numBlocks
      \<and> m_cached_balances (fst (pollBalanceChanged iface m))
          = (if balanceChanged iface new_balances (m_cached_balances m)
             then new_balances else m_cached_balances m))"
  by (auto simp add: pollBalanceChanged_def checkBalanceChanged_def Let_def case_prod_beta)

theorem C9_poll_does_not_block_witness:
  "pollBalanceChanged (poll_example None) (model_example\<lparr>pollNum := 7\<rparr>)
       = (model_example\<lparr>pollNum := 8\<rparr>, [])
   \<and> pollNum (fst (pollBalanceChanged (poll_example (Some (600, 100))) model_example)) = 0
   \<and> cachedNumBlocks (fst (pollBalanceChanged (poll_example (Some (600, 100))) model_example))
       = 100
   \<and> m_cached_balances (fst (pollBalanceChanged (poll_example (Some (600, 100))) model_example))
       = 600"
  using C9_poll_does_not_block [of "poll_example None" 100 False
      "model_example\<lparr>pollNum := 7\<rparr>" 0 0]
    C9_poll_does_not_block [of "poll_example (Some (600, 100))" 100 False model_example 600 100]
  by (simp add: poll_example_def model_example_def)

subsection \<open>Depth and ledger\<close>

text \<open>
  Recording the same observation a second time without allowing updates leaves
  the ledger as the first call left it.
\<close>

lemma AddToWalletIfInvolvingMe_idempotent:
  "AddToWalletIfInvolvingMe owned t confirm False
     (snd (AddToWalletIfInvolvingMe owned t confirm False l))
   = (False, snd (AddToWalletIfInvolvingMe owned t confirm False l))"
proof (cases "mapWallet l (GetHash t)")
  case None
  show ?thesis
  proof (cases "owned t")
    case True
    with None show ?thesis
      by (simp add: AddToWalletIfInvolvingMe_def isAbandoned_def non_conflicting_evidence_def)
  next
    case False
    with None show ?thesis by (simp add: AddToWalletIfInvolvingMe_def)
  qed
next
  case (Some w)
  show ?thesis
  proof (cases "isAbandoned w \<and> non_conflicting_evidence confirm")
    case True
    with Some show ?thesis
      by (auto simp add: AddToWalletIfInvolvingMe_def isAbandoned_def
          non_conflicting_evidence_def MarkDirty_def)
  next
    case False
    with Some show ?thesis by (simp add: AddToWalletIfInvolvingMe_def)
  qed
qed




text \<open>
  C2. For a tracked transaction in the Abandoned state, a call that reports the
  transaction in the mempool (Unconfirmed) or in a block (Confirmed) leaves it
  tracked with the reported status, out of the Abandoned state, whether or not
  the call allows updates.
\<close>

theorem C2_abandonment_override:
  assumes "mapWallet l (GetHash t) = Some w"
    and "isAbandoned w"
    and "status confirm = UNCONFIRMED \<or> status confirm = CONFIRMED"
  shows "\<exists>w'. mapWallet (snd (AddToWalletIfInvolvingMe owned t confirm fUpdate l)) (GetHash t)
                  = Some w'
          \<and> \<not> isAbandoned w' \<and> status (m_confirm w') = status confirm"
  using assms
  by (auto simp add: AddToWalletIfInvolvingMe_def non_conflicting_evidence_def
      isAbandoned_def MarkDirty_def)

theorem C2_abandonment_override_witness:
  "mapWallet ledger_example (GetHash tx_example)
     = Some (setAbandoned (CWalletTx_new None tx_example))
   \<and> isAbandoned (setAbandoned (CWalletTx_new None tx_example))
   \<and> (\<exists>w'. mapWallet (snd (AddToWalletIfInvolvingMe (\<lambda>t. False) tx_example
                  mempool_sighting False ledger_example)) (GetHash tx_example) = Some w'
          \<and> \<not> isAbandoned w' \<and> status (m_confirm w') = UNCONFIRMED)
   \<and> (\<exists>w'. mapWallet (snd (AddToWalletIfInvolvingMe (\<lambda>t. False) tx_example
                  block_inclusion True ledger_example)) (GetHash tx_example) = Some w'
          \<and> \<not> isAbandoned w' \<and> status (m_confirm w') = CONFIRMED)"
  using C2_abandonment_override [of ledger_example tx_example
      "setAbandoned (CWalletTx_new None tx_example)" mempool_sighting "\<lambda>t. False" False]
    C2_abandonment_override [of ledger_example tx_example
      "setAbandoned (CWalletTx_new None tx_example)" block_inclusion "\<lambda>t. False" True]
  by (simp add: ledger_example_def tx_example_def mempool_sighting_def block_inclusion_def
      isAbandoned_def setAbandoned_def)

subsection \<open>Coin selection\<close>




















subsection \<open>Selection failure\<close>








end
